theory Spec2Isabelle
  imports Complex_Main "HOL-Library.AList" "HOL-Library.Multiset"
begin

section \<open>Python values\<close>

text \<open>
  The filter dictionaries and the emitted query documents are plain Python values.
  A dict keeps its insertion order, so it is an association list; all keys that occur in
  \<^verbatim>\<open>filter_utils.py\<close> are strings.
\<close>

datatype pyval =
    PNone
  | PBool bool
  | PInt int
  | PFloat real
  | PStr string
  | PList "pyval list"
  | PDict "(string \<times> pyval) list"

type_synonym pydict = "(string \<times> pyval) list"

datatype py_error = AssertionError | ValueError | IndexError | AttributeError | TypeError

text \<open>
  \<^verbatim>\<open>isinstance\<close> as Python decides it. \<^verbatim>\<open>bool\<close> is a subclass of \<^verbatim>\<open>int\<close>:
  \<^verbatim>\<open>isinstance(True, int)\<close> is \<^verbatim>\<open>True\<close>.
\<close>

fun isinstance_str :: "pyval \<Rightarrow> bool" where
  "isinstance_str (PStr _) = True"
| "isinstance_str _ = False"

fun isinstance_int :: "pyval \<Rightarrow> bool" where
  "isinstance_int (PInt _) = True"
| "isinstance_int (PBool _) = True"
| "isinstance_int _ = False"

fun isinstance_float :: "pyval \<Rightarrow> bool" where
  "isinstance_float (PFloat _) = True"
| "isinstance_float _ = False"

fun isinstance_bool :: "pyval \<Rightarrow> bool" where
  "isinstance_bool (PBool _) = True"
| "isinstance_bool _ = False"

fun isinstance_list :: "pyval \<Rightarrow> bool" where
  "isinstance_list (PList _) = True"
| "isinstance_list _ = False"

section \<open>The filter classes\<close>

text \<open>
  One constructor per concrete class of \<^verbatim>\<open>filter_utils.py\<close>. The three subclasses of
  \<^verbatim>\<open>LogicalFilterClause\<close> hold \<^verbatim>\<open>conditions\<close>; the eight subclasses of
  \<^verbatim>\<open>ComparisonOperation\<close> hold \<^verbatim>\<open>field_name\<close> and \<^verbatim>\<open>comparison_value\<close>.
  \<^verbatim>\<open>ComparisonOperation.__init__\<close> stores both fields and checks nothing, so the
  constructors take any value.
\<close>

datatype filter_clause =
    NotOperation "filter_clause list"
  | AndOperation "filter_clause list"
  | OrOperation "filter_clause list"
  | EqOperation string pyval
  | InOperation string pyval
  | NeOperation string pyval
  | NinOperation string pyval
  | GtOperation string pyval
  | GteOperation string pyval
  | LtOperation string pyval
  | LteOperation string pyval

subsection \<open>invert\<close>

fun invert :: "filter_clause \<Rightarrow> filter_clause" where
  "invert (NotOperation conditions) = OrOperation (map invert conditions)"
| "invert (AndOperation conditions) = OrOperation (map invert conditions)"
| "invert (OrOperation conditions) = AndOperation (map invert conditions)"
| "invert (EqOperation field_name comparison_value) = NeOperation field_name comparison_value"
| "invert (InOperation field_name comparison_value) = NinOperation field_name comparison_value"
| "invert (NeOperation field_name comparison_value) = EqOperation field_name comparison_value"
| "invert (NinOperation field_name comparison_value) = InOperation field_name comparison_value"
| "invert (GtOperation field_name comparison_value) = LteOperation field_name comparison_value"
| "invert (GteOperation field_name comparison_value) = LtOperation field_name comparison_value"
| "invert (LtOperation field_name comparison_value) = GteOperation field_name comparison_value"
| "invert (LteOperation field_name comparison_value) = GtOperation field_name comparison_value"

subsection \<open>Parsing\<close>

text \<open>
  \<^verbatim>\<open>ComparisonOperation.parse\<close>: one round of the loop over
  \<^verbatim>\<open>comparison_clause.items()\<close>, then the method. An operator key that is none of the
  eight appends nothing.
\<close>

fun comparison_item :: "string \<Rightarrow> string \<times> pyval \<Rightarrow> filter_clause list" where
  "comparison_item field_name (comparison_operation, comparison_value) =
     (if comparison_operation = ''$eq'' then [EqOperation field_name comparison_value]
      else if comparison_operation = ''$in'' then [InOperation field_name comparison_value]
      else if comparison_operation = ''$ne'' then [NeOperation field_name comparison_value]
      else if comparison_operation = ''$nin'' then [NinOperation field_name comparison_value]
      else if comparison_operation = ''$gt'' then [GtOperation field_name comparison_value]
      else if comparison_operation = ''$gte'' then [GteOperation field_name comparison_value]
      else if comparison_operation = ''$lt'' then [LtOperation field_name comparison_value]
      else if comparison_operation = ''$lte'' then [LteOperation field_name comparison_value]
      else [])"

fun ComparisonOperation_parse :: "string \<Rightarrow> pyval \<Rightarrow> filter_clause list" where
  "ComparisonOperation_parse field_name (PDict comparison_clause) =
     concat (map (comparison_item field_name) comparison_clause)"
| "ComparisonOperation_parse field_name (PList comparison_clause) =
     [InOperation field_name (PList comparison_clause)]"
| "ComparisonOperation_parse field_name comparison_clause =
     [EqOperation field_name comparison_clause]"

text \<open>
  \<^verbatim>\<open>LogicalFilterClause.parse\<close> is a classmethod: \<^verbatim>\<open>cls\<close> is the abstract base class
  when the caller parses a whole filter, and one of the three subclasses when the method
  is reached through an operator key.
\<close>

datatype logical_cls = LogicalFilterClause | NotOperation_cls | AndOperation_cls | OrOperation_cls

text \<open>The last statement of \<^verbatim>\<open>parse\<close>, lines 112 to 118.\<close>

fun parse_result :: "logical_cls \<Rightarrow> filter_clause list \<Rightarrow> filter_clause" where
  "parse_result LogicalFilterClause conditions =
     (if length conditions = 1 then conditions ! 0 else AndOperation conditions)"
| "parse_result NotOperation_cls conditions = NotOperation conditions"
| "parse_result AndOperation_cls conditions = AndOperation conditions"
| "parse_result OrOperation_cls conditions = OrOperation conditions"

text \<open>
  The two nested loops of \<^verbatim>\<open>parse\<close> fill \<^verbatim>\<open>conditions\<close>:
  \<open>parse_conditions\<close> is everything before the last statement, \<open>parse_list\<close> the loop
  over \<^verbatim>\<open>filter_term\<close> and \<open>parse_items\<close> the loop over \<^verbatim>\<open>item.items()\<close>.
  A dict is wrapped in a one-element list first, so its loop over the list runs once.
  A filter term that is not iterable raises TypeError, an item without \<^verbatim>\<open>items\<close>
  raises AttributeError (the characters of a non-empty string are such items).
\<close>

fun parse_conditions :: "pyval \<Rightarrow> py_error + filter_clause list"
  and parse_list :: "pyval list \<Rightarrow> py_error + filter_clause list"
  and parse_items :: "(string \<times> pyval) list \<Rightarrow> py_error + filter_clause list"
where
  "parse_conditions (PDict item) = parse_items item"
| "parse_conditions (PList filter_term) = parse_list filter_term"
| "parse_conditions (PStr s) = (if s = [] then Inr [] else Inl AttributeError)"
| "parse_conditions _ = Inl TypeError"
| "parse_list [] = Inr []"
| "parse_list (PDict item # rest) =
     (case parse_items item of
        Inl e \<Rightarrow> Inl e
      | Inr cs \<Rightarrow> (case parse_list rest of Inl e \<Rightarrow> Inl e | Inr ds \<Rightarrow> Inr (cs @ ds)))"
| "parse_list (_ # rest) = Inl AttributeError"
| "parse_items [] = Inr []"
| "parse_items ((key, value) # rest) =
     (case (if key = ''$not'' then
              (case parse_conditions value of
                 Inl e \<Rightarrow> Inl e | Inr cs \<Rightarrow> Inr [parse_result NotOperation_cls cs])
            else if key = ''$and'' then
              (case parse_conditions value of
                 Inl e \<Rightarrow> Inl e | Inr cs \<Rightarrow> Inr [parse_result AndOperation_cls cs])
            else if key = ''$or'' then
              (case parse_conditions value of
                 Inl e \<Rightarrow> Inl e | Inr cs \<Rightarrow> Inr [parse_result OrOperation_cls cs])
            else Inr (ComparisonOperation_parse key value)) of
        Inl e \<Rightarrow> Inl e
      | Inr cs \<Rightarrow> (case parse_items rest of Inl e \<Rightarrow> Inl e | Inr ds \<Rightarrow> Inr (cs @ ds)))"

definition parse :: "logical_cls \<Rightarrow> pyval \<Rightarrow> py_error + filter_clause" where
  "parse cls filter_term =
     (case parse_conditions filter_term of
        Inl e \<Rightarrow> Inl e
      | Inr conditions \<Rightarrow> Inr (parse_result cls conditions))"

subsection \<open>Elasticsearch\<close>

text \<open>
  A list comprehension over calls that may raise: the first exception leaves the
  comprehension.
\<close>

fun collect :: "('e + 'a) list \<Rightarrow> 'e + 'a list" where
  "collect [] = Inr []"
| "collect (Inl e # _) = Inl e"
| "collect (Inr x # rest) = (case collect rest of Inl e \<Rightarrow> Inl e | Inr xs \<Rightarrow> Inr (x # xs))"

text \<open>
  \<^verbatim>\<open>_merge_es_range_queries\<close>. \<open>range_entry\<close> reads one range condition, lines 144 to
  146: the first key of the condition, and the first key below it with its value.
  \<open>range_store\<close> is the assignment of line 147 on the nested defaultdict: a key that is
  there keeps its place, a new key goes to the end, as in every Python dict.
\<close>

fun range_entry :: "pyval \<Rightarrow> py_error + (string \<times> string \<times> pyval)" where
  "range_entry (PDict []) = Inl IndexError"
| "range_entry (PDict ((field_name, PDict []) # _)) = Inl IndexError"
| "range_entry (PDict ((field_name, PDict ((operation, comparison_value) # _)) # _)) =
     Inr (field_name, operation, comparison_value)"
| "range_entry _ = Inl AttributeError"

definition range_store ::
  "string \<times> string \<times> pyval \<Rightarrow> (string \<times> pydict) list \<Rightarrow> (string \<times> pydict) list" where
  "range_store entry range_conditions_dict =
     (case entry of (field_name, operation, comparison_value) \<Rightarrow>
        AList.update field_name
          (AList.update operation comparison_value
             (case map_of range_conditions_dict field_name of None \<Rightarrow> [] | Some ops \<Rightarrow> ops))
          range_conditions_dict)"

definition has_range :: "pydict \<Rightarrow> bool" where
  "has_range condition = (map_of condition ''range'' \<noteq> None)"

definition merge_es_range_queries :: "pydict list \<Rightarrow> py_error + pydict list" where
  "merge_es_range_queries conditions =
     (let range_conditions = List.map_filter (\<lambda>cond. map_of cond ''range'') conditions
      in if range_conditions \<noteq> [] then
           (case collect (map range_entry range_conditions) of
              Inl e \<Rightarrow> Inl e
            | Inr entries \<Rightarrow>
                Inr (filter (\<lambda>condition. \<not> has_range condition) conditions
                     @ map (\<lambda>(field_name, comparison_operations).
                              [(''range'', PDict [(field_name, PDict comparison_operations)])])
                           (foldl (\<lambda>d entry. range_store entry d) [] entries)))
         else Inr conditions)"

text \<open>
  The three logical classes differ in the key of the clause list only; the comparison
  classes assert the kind of their value when they are converted.
\<close>

fun convert_to_elasticsearch :: "filter_clause \<Rightarrow> py_error + pydict" where
  "convert_to_elasticsearch (NotOperation conditions) =
     (case collect (map convert_to_elasticsearch conditions) of
        Inl e \<Rightarrow> Inl e
      | Inr cs \<Rightarrow> (case merge_es_range_queries cs of
                    Inl e \<Rightarrow> Inl e
                  | Inr ms \<Rightarrow> Inr [(''bool'', PDict [(''must_not'', PList (map PDict ms))])]))"
| "convert_to_elasticsearch (AndOperation conditions) =
     (case collect (map convert_to_elasticsearch conditions) of
        Inl e \<Rightarrow> Inl e
      | Inr cs \<Rightarrow> (case merge_es_range_queries cs of
                    Inl e \<Rightarrow> Inl e
                  | Inr ms \<Rightarrow> Inr [(''bool'', PDict [(''must'', PList (map PDict ms))])]))"
| "convert_to_elasticsearch (OrOperation conditions) =
     (case collect (map convert_to_elasticsearch conditions) of
        Inl e \<Rightarrow> Inl e
      | Inr cs \<Rightarrow> (case merge_es_range_queries cs of
                    Inl e \<Rightarrow> Inl e
                  | Inr ms \<Rightarrow> Inr [(''bool'', PDict [(''should'', PList (map PDict ms))])]))"
| "convert_to_elasticsearch (EqOperation field_name comparison_value) =
     (if isinstance_list comparison_value then Inl AssertionError
      else Inr [(''term'', PDict [(field_name, comparison_value)])])"
| "convert_to_elasticsearch (InOperation field_name comparison_value) =
     (if \<not> isinstance_list comparison_value then Inl AssertionError
      else Inr [(''terms'', PDict [(field_name, comparison_value)])])"
| "convert_to_elasticsearch (NeOperation field_name comparison_value) =
     (if isinstance_list comparison_value then Inl AssertionError
      else Inr [(''bool'', PDict [(''must_not'',
                  PDict [(''term'', PDict [(field_name, comparison_value)])])])])"
| "convert_to_elasticsearch (NinOperation field_name comparison_value) =
     (if \<not> isinstance_list comparison_value then Inl AssertionError
      else Inr [(''bool'', PDict [(''must_not'',
                  PDict [(''terms'', PDict [(field_name, comparison_value)])])])])"
| "convert_to_elasticsearch (GtOperation field_name comparison_value) =
     (if isinstance_list comparison_value then Inl AssertionError
      else Inr [(''range'', PDict [(field_name, PDict [(''gt'', comparison_value)])])])"
| "convert_to_elasticsearch (GteOperation field_name comparison_value) =
     (if isinstance_list comparison_value then Inl AssertionError
      else Inr [(''range'', PDict [(field_name, PDict [(''gte'', comparison_value)])])])"
| "convert_to_elasticsearch (LtOperation field_name comparison_value) =
     (if isinstance_list comparison_value then Inl AssertionError
      else Inr [(''range'', PDict [(field_name, PDict [(''lt'', comparison_value)])])])"
| "convert_to_elasticsearch (LteOperation field_name comparison_value) =
     (if isinstance_list comparison_value then Inl AssertionError
      else Inr [(''range'', PDict [(field_name, PDict [(''lte'', comparison_value)])])])"

subsection \<open>Weaviate\<close>

text \<open>
  \<^verbatim>\<open>_get_weaviate_datatype\<close>. The date conversion
  \<^verbatim>\<open>WeaviateDocumentStore._convert_date_to_rfc3339\<close> lives in another module; it is the
  parameter \<open>convert_date\<close>, with \<open>None\<close> for its ValueError. \<open>weaviate_datatype\<close> is
  the chain of \<^verbatim>\<open>isinstance\<close> tests in the order of lines 235 to 251, and
  \<open>get_weaviate_datatype\<close> the method, whose argument \<^verbatim>\<open>value\<close> defaults to
  \<^verbatim>\<open>None\<close>.
\<close>

fun weaviate_datatype :: "(string \<Rightarrow> string option) \<Rightarrow> pyval \<Rightarrow> py_error + (string \<times> pyval)" where
  "weaviate_datatype convert_date (PStr s) =
     (case convert_date s of
        Some d \<Rightarrow> Inr (''valueDate'', PStr d)
      | None \<Rightarrow> Inr (''valueString'', PStr s))"
| "weaviate_datatype convert_date v =
     (if isinstance_int v then Inr (''valueInt'', v)
      else if isinstance_float v then Inr (''valueNumber'', v)
      else if isinstance_bool v then Inr (''valueBoolean'', v)
      else Inl ValueError)"

definition get_weaviate_datatype ::
  "(string \<Rightarrow> string option) \<Rightarrow> pyval \<Rightarrow> pyval \<Rightarrow> py_error + (string \<times> pyval)" where
  "get_weaviate_datatype convert_date comparison_value v =
     (if v = PNone then
        (if isinstance_list comparison_value then Inl AssertionError
         else weaviate_datatype convert_date comparison_value)
      else weaviate_datatype convert_date v)"

text \<open>The dict that the eight comparison classes build from the typed value.\<close>

definition weaviate_comparison :: "string \<Rightarrow> string \<Rightarrow> string \<times> pyval \<Rightarrow> pydict" where
  "weaviate_comparison field_name operator typed =
     [(''path'', PList [PStr field_name]), (''operator'', PStr operator), typed]"

function convert_to_weaviate :: "(string \<Rightarrow> string option) \<Rightarrow> filter_clause \<Rightarrow> py_error + pydict" where
  "convert_to_weaviate cd (NotOperation conditions) =
     (case collect (map (\<lambda>condition. convert_to_weaviate cd (invert condition)) conditions) of
        Inl e \<Rightarrow> Inl e
      | Inr cs \<Rightarrow>
          if length cs > 1 then Inr [(''operator'', PStr ''And''), (''operands'', PList (map PDict cs))]
          else (case cs of [] \<Rightarrow> Inl IndexError | c # _ \<Rightarrow> Inr c))"
| "convert_to_weaviate cd (AndOperation conditions) =
     (case collect (map (convert_to_weaviate cd) conditions) of
        Inl e \<Rightarrow> Inl e
      | Inr cs \<Rightarrow> Inr [(''operator'', PStr ''And''), (''operands'', PList (map PDict cs))])"
| "convert_to_weaviate cd (OrOperation conditions) =
     (case collect (map (convert_to_weaviate cd) conditions) of
        Inl e \<Rightarrow> Inl e
      | Inr cs \<Rightarrow> Inr [(''operator'', PStr ''Or''), (''operands'', PList (map PDict cs))])"
| "convert_to_weaviate cd (EqOperation field_name comparison_value) =
     (case get_weaviate_datatype cd comparison_value PNone of
        Inl e \<Rightarrow> Inl e
      | Inr typed \<Rightarrow> Inr (weaviate_comparison field_name ''Equal'' typed))"
| "convert_to_weaviate cd (InOperation field_name comparison_value) =
     (case comparison_value of
        PList vs \<Rightarrow>
          (case collect (map (get_weaviate_datatype cd comparison_value) vs) of
             Inl e \<Rightarrow> Inl e
           | Inr typed \<Rightarrow>
               Inr [(''operator'', PStr ''Or''),
                    (''operands'', PList (map (\<lambda>t. PDict (weaviate_comparison field_name ''Equal'' t)) typed))])
      | _ \<Rightarrow> Inl AssertionError)"
| "convert_to_weaviate cd (NeOperation field_name comparison_value) =
     (case get_weaviate_datatype cd comparison_value PNone of
        Inl e \<Rightarrow> Inl e
      | Inr typed \<Rightarrow> Inr (weaviate_comparison field_name ''NotEqual'' typed))"
| "convert_to_weaviate cd (NinOperation field_name comparison_value) =
     (case comparison_value of
        PList vs \<Rightarrow>
          (case collect (map (get_weaviate_datatype cd comparison_value) vs) of
             Inl e \<Rightarrow> Inl e
           | Inr typed \<Rightarrow>
               Inr [(''operator'', PStr ''And''),
                    (''operands'', PList (map (\<lambda>t. PDict (weaviate_comparison field_name ''NotEqual'' t)) typed))])
      | _ \<Rightarrow> Inl AssertionError)"
| "convert_to_weaviate cd (GtOperation field_name comparison_value) =
     (case get_weaviate_datatype cd comparison_value PNone of
        Inl e \<Rightarrow> Inl e
      | Inr typed \<Rightarrow>
          if isinstance_list (snd typed) then Inl AssertionError
          else Inr (weaviate_comparison field_name ''GreaterThan'' typed))"
| "convert_to_weaviate cd (GteOperation field_name comparison_value) =
     (case get_weaviate_datatype cd comparison_value PNone of
        Inl e \<Rightarrow> Inl e
      | Inr typed \<Rightarrow>
          if isinstance_list (snd typed) then Inl AssertionError
          else Inr (weaviate_comparison field_name ''GreaterThanEqual'' typed))"
| "convert_to_weaviate cd (LtOperation field_name comparison_value) =
     (case get_weaviate_datatype cd comparison_value PNone of
        Inl e \<Rightarrow> Inl e
      | Inr typed \<Rightarrow>
          if isinstance_list (snd typed) then Inl AssertionError
          else Inr (weaviate_comparison field_name ''LessThan'' typed))"
| "convert_to_weaviate cd (LteOperation field_name comparison_value) =
     (case get_weaviate_datatype cd comparison_value PNone of
        Inl e \<Rightarrow> Inl e
      | Inr typed \<Rightarrow>
          if isinstance_list (snd typed) then Inl AssertionError
          else Inr (weaviate_comparison field_name ''LessThanEqual'' typed))"
  by pat_completeness auto
termination
proof -
  have size_invert: "size (invert c) = size c" for c
  proof (induction c rule: invert.induct)
    case (1 conditions)
    then show ?case by (simp add: size_list_conv_sum_list comp_def cong: map_cong)
  next
    case (2 conditions)
    then show ?case by (simp add: size_list_conv_sum_list comp_def cong: map_cong)
  next
    case (3 conditions)
    then show ?case by (simp add: size_list_conv_sum_list comp_def cong: map_cong)
  qed simp_all
  show ?thesis
    by (relation "measure (\<lambda>(cd, c). size c)")
       (auto simp: size_invert less_Suc_eq_le size_list_estimation')
qed

subsection \<open>Trees without a Not node\<close>

text \<open>The trees that \<open>invert\<close> can return: no \<^verbatim>\<open>NotOperation\<close> at any depth.\<close>

fun has_no_not :: "filter_clause \<Rightarrow> bool" where
  "has_no_not (NotOperation conditions) = False"
| "has_no_not (AndOperation conditions) = list_all has_no_not conditions"
| "has_no_not (OrOperation conditions) = list_all has_no_not conditions"
| "has_no_not _ = True"

subsection \<open>Trees up to the order of children\<close>

text \<open>
  The shape of a tree forgets the order of the children of the logical nodes and nothing
  else: two trees are equal after the child lists of their logical nodes are brought
  into one order exactly when their shapes are equal.
\<close>

datatype shape = Logical_shape string "shape multiset" | Comparison_shape string string pyval

fun shape_of :: "filter_clause \<Rightarrow> shape" where
  "shape_of (NotOperation conditions) = Logical_shape ''Not'' (mset (map shape_of conditions))"
| "shape_of (AndOperation conditions) = Logical_shape ''And'' (mset (map shape_of conditions))"
| "shape_of (OrOperation conditions) = Logical_shape ''Or'' (mset (map shape_of conditions))"
| "shape_of (EqOperation field_name comparison_value) = Comparison_shape ''Eq'' field_name comparison_value"
| "shape_of (InOperation field_name comparison_value) = Comparison_shape ''In'' field_name comparison_value"
| "shape_of (NeOperation field_name comparison_value) = Comparison_shape ''Ne'' field_name comparison_value"
| "shape_of (NinOperation field_name comparison_value) = Comparison_shape ''Nin'' field_name comparison_value"
| "shape_of (GtOperation field_name comparison_value) = Comparison_shape ''Gt'' field_name comparison_value"
| "shape_of (GteOperation field_name comparison_value) = Comparison_shape ''Gte'' field_name comparison_value"
| "shape_of (LtOperation field_name comparison_value) = Comparison_shape ''Lt'' field_name comparison_value"
| "shape_of (LteOperation field_name comparison_value) = Comparison_shape ''Lte'' field_name comparison_value"

section \<open>Parsing\<close>

text \<open>
  Claim C10. When \<^verbatim>\<open>parse\<close> is called on the base class (no operator key around the
  term), a term whose keys give two or more conditions parses to the And node over these
  conditions, and a term that gives exactly one condition parses to that condition
  itself, with no And node around it.
\<close>

theorem parse_top_level:
  "(parse_conditions filter_term = Inr conditions \<and> 2 \<le> length conditions
      \<longrightarrow> parse LogicalFilterClause filter_term = Inr (AndOperation conditions))
   \<and> (parse_conditions filter_term = Inr [c]
      \<longrightarrow> parse LogicalFilterClause filter_term = Inr c)"
  by (simp add: parse_def)

theorem parse_top_level_witness:
  "parse LogicalFilterClause (PDict [(''type'', PStr ''article''), (''rating'', PInt 3)])
     = Inr (AndOperation [EqOperation ''type'' (PStr ''article''), EqOperation ''rating'' (PInt 3)])
   \<and> parse LogicalFilterClause (PDict [(''type'', PStr ''article'')])
     = Inr (EqOperation ''type'' (PStr ''article''))"
proof -
  have two: "parse_conditions (PDict [(''type'', PStr ''article''), (''rating'', PInt 3)])
     = Inr [EqOperation ''type'' (PStr ''article''), EqOperation ''rating'' (PInt 3)]"
    by simp
  have one: "parse_conditions (PDict [(''type'', PStr ''article'')])
     = Inr [EqOperation ''type'' (PStr ''article'')]"
    by simp
  from two one
    parse_top_level [of "PDict [(''type'', PStr ''article''), (''rating'', PInt 3)]"
      "[EqOperation ''type'' (PStr ''article''), EqOperation ''rating'' (PInt 3)]"]
    parse_top_level [of "PDict [(''type'', PStr ''article'')]" _
      "EqOperation ''type'' (PStr ''article'')"]
  show ?thesis by simp
qed

text \<open>
  Claim C6 says that a logical node returned by \<^verbatim>\<open>parse\<close> has at least one child
  and that an operator key without conditions is a parse error. \<^verbatim>\<open>parse\<close> never
  looks at the number of conditions of an operator key:
  \<^verbatim>\<open>{"$and": {}}\<close> parses to an And node without children.
\<close>

theorem childless_and_counterexample:
  "parse LogicalFilterClause (PDict [(''$and'', PDict [])]) = Inr (AndOperation [])"
  by (simp add: parse_def)

text \<open>
  Claim C6, amended. An operator key wraps whatever conditions its operand gives,
  whatever their number: when the operand parses to the conditions \<open>cs\<close>, the filter
  \<^verbatim>\<open>{"$and": operand}\<close> parses to the And node over \<open>cs\<close>, and likewise for
  \<^verbatim>\<open>$or\<close> and \<^verbatim>\<open>$not\<close>; with no conditions the node has no children and no error is
  raised. The operand of the witness gives no condition because its only comparison key
  is none of the eight.
\<close>

theorem operator_key_wraps_any_number:
  "parse_conditions operand = Inr conditions \<Longrightarrow>
     parse LogicalFilterClause (PDict [(''$and'', operand)]) = Inr (AndOperation conditions)
   \<and> parse LogicalFilterClause (PDict [(''$or'', operand)]) = Inr (OrOperation conditions)
   \<and> parse LogicalFilterClause (PDict [(''$not'', operand)]) = Inr (NotOperation conditions)"
  by (simp add: parse_def)

theorem operator_key_wraps_any_number_witness:
  "parse_conditions (PDict [(''genre'', PDict [(''$regex'', PStr ''eco'')])]) = Inr []
   \<and> parse LogicalFilterClause
         (PDict [(''$and'', PDict [(''genre'', PDict [(''$regex'', PStr ''eco'')])])])
     = Inr (AndOperation [])
   \<and> parse LogicalFilterClause
         (PDict [(''$or'', PDict [(''genre'', PDict [(''$regex'', PStr ''eco'')])])])
     = Inr (OrOperation [])
   \<and> parse LogicalFilterClause
         (PDict [(''$not'', PDict [(''genre'', PDict [(''$regex'', PStr ''eco'')])])])
     = Inr (NotOperation [])"
proof -
  have h: "parse_conditions (PDict [(''genre'', PDict [(''$regex'', PStr ''eco'')])]) = Inr []"
    by simp
  from h operator_key_wraps_any_number [OF h] show ?thesis by (rule conjI)
qed

text \<open>
  Claim C5 says that an In or NotIn comparison over a scalar, and any other comparison
  over a list, is refused when it is constructed. The constructor checks nothing:
  both filters below parse, to a node that holds the value of the wrong kind.
\<close>

theorem construction_unchecked_counterexample:
  "parse LogicalFilterClause (PDict [(''genre'', PDict [(''$in'', PStr ''economy'')])])
     = Inr (InOperation ''genre'' (PStr ''economy''))
   \<and> parse LogicalFilterClause (PDict [(''genre'', PDict [(''$eq'', PList [PStr ''economy''])])])
     = Inr (EqOperation ''genre'' (PList [PStr ''economy'']))"
  by (simp add: parse_def)

text \<open>
  Claim C5, amended. Constructing a comparison never fails: an operator key builds its
  node over any value. The kind of the value is asserted when the node is converted: an
  In or NotIn node over a value that is not a list, and an Eq, Ne, Gt, Gte, Lt or Lte node
  over a list, fail with AssertionError in \<^verbatim>\<open>convert_to_elasticsearch\<close> and in
  \<^verbatim>\<open>convert_to_weaviate\<close>.
\<close>

theorem operand_kind_checked_at_conversion:
  "ComparisonOperation_parse f (PDict [(''$in'', v)]) = [InOperation f v]
   \<and> ComparisonOperation_parse f (PDict [(''$nin'', v)]) = [NinOperation f v]
   \<and> ComparisonOperation_parse f (PDict [(''$eq'', v)]) = [EqOperation f v]
   \<and> (\<not> isinstance_list v \<longrightarrow>
          convert_to_elasticsearch (InOperation f v) = Inl AssertionError
        \<and> convert_to_elasticsearch (NinOperation f v) = Inl AssertionError
        \<and> convert_to_weaviate cd (InOperation f v) = Inl AssertionError
        \<and> convert_to_weaviate cd (NinOperation f v) = Inl AssertionError)
   \<and> (isinstance_list v \<longrightarrow>
          convert_to_elasticsearch (EqOperation f v) = Inl AssertionError
        \<and> convert_to_elasticsearch (NeOperation f v) = Inl AssertionError
        \<and> convert_to_elasticsearch (GtOperation f v) = Inl AssertionError
        \<and> convert_to_elasticsearch (GteOperation f v) = Inl AssertionError
        \<and> convert_to_elasticsearch (LtOperation f v) = Inl AssertionError
        \<and> convert_to_elasticsearch (LteOperation f v) = Inl AssertionError
        \<and> convert_to_weaviate cd (EqOperation f v) = Inl AssertionError
        \<and> convert_to_weaviate cd (NeOperation f v) = Inl AssertionError
        \<and> convert_to_weaviate cd (GtOperation f v) = Inl AssertionError
        \<and> convert_to_weaviate cd (GteOperation f v) = Inl AssertionError
        \<and> convert_to_weaviate cd (LtOperation f v) = Inl AssertionError
        \<and> convert_to_weaviate cd (LteOperation f v) = Inl AssertionError)"
  by (cases v) (simp_all add: get_weaviate_datatype_def)

theorem operand_kind_checked_at_conversion_witness:
  "ComparisonOperation_parse ''genre'' (PDict [(''$in'', PStr ''economy'')])
     = [InOperation ''genre'' (PStr ''economy'')]
   \<and> convert_to_elasticsearch (InOperation ''genre'' (PStr ''economy'')) = Inl AssertionError
   \<and> convert_to_weaviate Map.empty (InOperation ''genre'' (PStr ''economy'')) = Inl AssertionError
   \<and> ComparisonOperation_parse ''genre'' (PDict [(''$eq'', PList [PStr ''economy''])])
     = [EqOperation ''genre'' (PList [PStr ''economy''])]
   \<and> convert_to_elasticsearch (EqOperation ''genre'' (PList [PStr ''economy''])) = Inl AssertionError
   \<and> convert_to_weaviate Map.empty (EqOperation ''genre'' (PList [PStr ''economy'']))
     = Inl AssertionError"
  using operand_kind_checked_at_conversion [of "''genre''" "PStr ''economy''" Map.empty]
    operand_kind_checked_at_conversion [of "''genre''" "PList [PStr ''economy'']" Map.empty]
  by simp

section \<open>The inversion table\<close>

text \<open>
  Claim C8. \<^verbatim>\<open>invert\<close> follows the table: And becomes Or over the inverted children,
  Or becomes And over the inverted children, Not becomes Or over the inverted children,
  and a comparison is replaced by its complementary operator (Eq/Ne, In/NotIn, Gt/Lte,
  Gte/Lt, in both directions) on the same field and value.
\<close>

theorem invert_table:
  "invert (AndOperation cs) = OrOperation (map invert cs)
   \<and> invert (OrOperation cs) = AndOperation (map invert cs)
   \<and> invert (NotOperation cs) = OrOperation (map invert cs)
   \<and> invert (EqOperation f v) = NeOperation f v
   \<and> invert (NeOperation f v) = EqOperation f v
   \<and> invert (InOperation f v) = NinOperation f v
   \<and> invert (NinOperation f v) = InOperation f v
   \<and> invert (GtOperation f v) = LteOperation f v
   \<and> invert (LteOperation f v) = GtOperation f v
   \<and> invert (GteOperation f v) = LtOperation f v
   \<and> invert (LtOperation f v) = GteOperation f v"
  by simp

text \<open>
  Claim C2 says that inverting twice gives the tree back, for every tree, up to the
  order of the children of logical nodes. \<open>invert\<close> never returns a Not node, so a tree
  with a Not node cannot come back: the Not node over one comparison has become an And
  node, and the two trees differ in shape.
\<close>

theorem invert_invert_not_counterexample:
  "invert (invert (NotOperation [EqOperation ''type'' (PStr ''article'')]))
     = AndOperation [EqOperation ''type'' (PStr ''article'')]
   \<and> shape_of (invert (invert (NotOperation [EqOperation ''type'' (PStr ''article'')])))
     \<noteq> shape_of (NotOperation [EqOperation ''type'' (PStr ''article'')])"
  by simp

text \<open>
  Claim C2, amended. For every tree of And and Or nodes over comparisons (no Not node),
  inverting twice gives exactly the tree back, children in their order.
\<close>

theorem invert_invert:
  "has_no_not T \<Longrightarrow> invert (invert T) = T"
proof (induction T)
  case (AndOperation cs)
  then show ?case by (simp add: list_all_iff map_idI)
next
  case (OrOperation cs)
  then show ?case by (simp add: list_all_iff map_idI)
qed simp_all

theorem invert_invert_witness:
  "has_no_not (AndOperation [EqOperation ''type'' (PStr ''article''),
                OrOperation [GteOperation ''rating'' (PInt 3),
                             InOperation ''genre'' (PList [PStr ''economy''])]])
   \<and> invert (invert (AndOperation [EqOperation ''type'' (PStr ''article''),
                OrOperation [GteOperation ''rating'' (PInt 3),
                             InOperation ''genre'' (PList [PStr ''economy''])]]))
     = AndOperation [EqOperation ''type'' (PStr ''article''),
                OrOperation [GteOperation ''rating'' (PInt 3),
                             InOperation ''genre'' (PList [PStr ''economy''])]]"
proof -
  have h: "has_no_not (AndOperation [EqOperation ''type'' (PStr ''article''),
                OrOperation [GteOperation ''rating'' (PInt 3),
                             InOperation ''genre'' (PList [PStr ''economy''])]])"
    by simp
  from h invert_invert [OF h] show ?thesis by (rule conjI)
qed

section \<open>Elasticsearch: merging range conditions\<close>

lemma no_range_conditions:
  "List.map_filter (\<lambda>cond. map_of cond ''range'') conditions = []
   \<Longrightarrow> filter (\<lambda>c. \<not> has_range c) conditions = conditions"
  by (induction conditions) (auto simp: List.map_filter_def has_range_def)

lemma map_of_range_store:
  "map_of (range_store (f', op', v) d) f =
     (if f = f' then Some (AList.update op' v (case map_of d f' of None \<Rightarrow> [] | Some ops \<Rightarrow> ops))
      else map_of d f)"
  by (simp add: range_store_def update_conv')

lemma keys_range_store:
  "map fst (range_store (f', op', v) d) =
     (if f' \<in> set (map fst d) then map fst d else map fst d @ [f'])"
  by (simp add: range_store_def update_keys)

lemma range_table_snoc:
  "foldl (\<lambda>d entry. range_store entry d) d0 (entries @ [e])
     = range_store e (foldl (\<lambda>d entry. range_store entry d) d0 entries)"
  by simp

lemma keys_range_table:
  "map fst (foldl (\<lambda>d entry. range_store entry d) [] entries)
     = rev (remdups (rev (map fst entries)))"
proof (induction entries rule: rev_induct)
  case Nil
  show ?case by simp
next
  case (snoc e entries)
  obtain f' op' v where e: "e = (f', op', v)" by (cases e)
  have s: "set (rev (remdups (rev (map fst entries)))) = fst ` set entries" by simp
  show ?case
    unfolding range_table_snoc e keys_range_store snoc.IH
    by (simp only: s) auto
qed

lemma ops_range_table:
  "map_of (foldl (\<lambda>d entry. range_store entry d) [] entries) f = Some ops \<Longrightarrow>
     ops \<noteq> [] \<and> distinct (map fst ops)
   \<and> map_of ops = map_of (rev (map snd (filter (\<lambda>e. fst e = f) entries)))"
proof (induction entries arbitrary: ops rule: rev_induct)
  case Nil
  then show ?case by simp
next
  case (snoc e entries)
  obtain f' op' v where e: "e = (f', op', v)" by (cases e)
  let ?d = "foldl (\<lambda>d entry. range_store entry d) [] entries"
  show ?case
  proof (cases "f = f'")
    case False
    with snoc.prems have "map_of ?d f = Some ops"
      by (simp add: e map_of_range_store)
    from snoc.IH [OF this] False show ?thesis by (simp add: e)
  next
    case True
    let ?old = "case map_of ?d f' of None \<Rightarrow> [] | Some ops \<Rightarrow> ops"
    from snoc.prems True have ops: "ops = AList.update op' v ?old"
      by (simp add: e map_of_range_store)
    have old: "distinct (map fst ?old)
        \<and> map_of ?old = map_of (rev (map snd (filter (\<lambda>e. fst e = f') entries)))"
    proof (cases "map_of ?d f'")
      case None
      then have "f' \<notin> set (map fst ?d)"
        by (simp add: map_of_eq_None_iff)
      then have "f' \<notin> fst ` set entries"
        unfolding keys_range_table by simp
      then have "filter (\<lambda>e. fst e = f') entries = []"
        by (auto simp: filter_empty_conv)
      with None show ?thesis by simp
    next
      case (Some old)
      from snoc.IH [of old] Some True show ?thesis by simp
    qed
    from old show ?thesis
      unfolding ops by (simp add: e True distinct_update update_conv')
  qed
qed

text \<open>
  Claim C9. The filter \<^verbatim>\<open>{"date": {"$gte": "2015-01-01", "$lt": "2021-01-01"}}\<close> parses
  to the And node over the two comparisons, and its Elasticsearch query has one range
  clause under \<^verbatim>\<open>must\<close>, on \<^verbatim>\<open>date\<close>, with both \<^verbatim>\<open>gte\<close> and \<^verbatim>\<open>lt\<close>.
\<close>

theorem date_range_example:
  "parse LogicalFilterClause
     (PDict [(''date'', PDict [(''$gte'', PStr ''2015-01-01''), (''$lt'', PStr ''2021-01-01'')])])
   = Inr (AndOperation [GteOperation ''date'' (PStr ''2015-01-01''),
                        LtOperation ''date'' (PStr ''2021-01-01'')])
   \<and> convert_to_elasticsearch
       (AndOperation [GteOperation ''date'' (PStr ''2015-01-01''),
                      LtOperation ''date'' (PStr ''2021-01-01'')])
   = Inr [(''bool'', PDict [(''must'', PList
            [PDict [(''range'', PDict [(''date'',
               PDict [(''gte'', PStr ''2015-01-01''), (''lt'', PStr ''2021-01-01'')])])]])])]"
  by (simp add: parse_def merge_es_range_queries_def range_store_def has_range_def
        List.map_filter_def)

text \<open>
  Claim C3 says that the merged range clause stands where the last range clause of the
  emitted child list stood. In the list below the only range clause is first; after the
  merge it is last, behind both term clauses, and the And node emits that list.
\<close>

theorem merged_range_position_counterexample:
  "merge_es_range_queries
     [[(''range'', PDict [(''a'', PDict [(''gt'', PInt 1)])])],
      [(''term'', PDict [(''b'', PInt 2)])],
      [(''term'', PDict [(''c'', PInt 3)])]]
   = Inr [[(''term'', PDict [(''b'', PInt 2)])],
          [(''term'', PDict [(''c'', PInt 3)])],
          [(''range'', PDict [(''a'', PDict [(''gt'', PInt 1)])])]]
   \<and> convert_to_elasticsearch
       (AndOperation [GtOperation ''a'' (PInt 1), EqOperation ''b'' (PInt 2),
                      EqOperation ''c'' (PInt 3)])
   = Inr [(''bool'', PDict [(''must'', PList
           [PDict [(''term'', PDict [(''b'', PInt 2)])],
            PDict [(''term'', PDict [(''c'', PInt 3)])],
            PDict [(''range'', PDict [(''a'', PDict [(''gt'', PInt 1)])])]])])]"
  by (simp add: merge_es_range_queries_def range_store_def has_range_def List.map_filter_def)

text \<open>
  Claim C3, amended. The merged list is the clauses without a \<^verbatim>\<open>range\<close> key, in
  their order, followed by the merged range clauses: the merged clauses stand at the end
  of the list, behind every other clause. There is one merged clause for each field that
  has a range clause, in the order in which the fields first occur, and the clause of a
  field holds each operator of that field once, with the value of the last range clause
  on that field and operator. \<open>entries\<close> are the field, operator and value read from
  the range clauses, in their order.
\<close>

theorem merge_appends_range_clauses:
  assumes "merge_es_range_queries conditions = Inr merged"
  shows "\<exists>entries groups.
           collect (map range_entry (List.map_filter (\<lambda>cond. map_of cond ''range'') conditions))
             = Inr entries
         \<and> merged = filter (\<lambda>c. \<not> has_range c) conditions
                    @ map (\<lambda>(field_name, ops). [(''range'', PDict [(field_name, PDict ops)])]) groups
         \<and> map fst groups = rev (remdups (rev (map fst entries)))
         \<and> (\<forall>field_name ops. map_of groups field_name = Some ops \<longrightarrow>
                ops \<noteq> [] \<and> distinct (map fst ops)
              \<and> map_of ops = map_of (rev (map snd (filter (\<lambda>e. fst e = field_name) entries))))"
proof (cases "List.map_filter (\<lambda>cond. map_of cond ''range'') conditions = []")
  case True
  with assms have "merged = conditions"
    by (simp add: merge_es_range_queries_def)
  with True no_range_conditions [OF True] show ?thesis
    by (intro exI [of _ "[]"]) simp
next
  case False
  with assms obtain entries where
    c: "collect (map range_entry (List.map_filter (\<lambda>cond. map_of cond ''range'') conditions))
          = Inr entries"
    and m: "merged = filter (\<lambda>c. \<not> has_range c) conditions
          @ map (\<lambda>(field_name, ops). [(''range'', PDict [(field_name, PDict ops)])])
                (foldl (\<lambda>d entry. range_store entry d) [] entries)"
    by (auto simp: merge_es_range_queries_def Let_def split: sum.splits)
  show ?thesis
    using c m keys_range_table [of entries] ops_range_table [of entries]
    by (intro exI [of _ entries] exI [of _ "foldl (\<lambda>d entry. range_store entry d) [] entries"])
       blast
qed

theorem merge_appends_range_clauses_witness:
  "merge_es_range_queries
     [[(''range'', PDict [(''a'', PDict [(''gt'', PInt 1)])])],
      [(''term'', PDict [(''b'', PInt 2)])],
      [(''range'', PDict [(''z'', PDict [(''lte'', PInt 5)])])],
      [(''range'', PDict [(''a'', PDict [(''lt'', PInt 9)])])],
      [(''term'', PDict [(''c'', PInt 3)])]]
   = Inr [[(''term'', PDict [(''b'', PInt 2)])],
          [(''term'', PDict [(''c'', PInt 3)])],
          [(''range'', PDict [(''a'', PDict [(''gt'', PInt 1), (''lt'', PInt 9)])])],
          [(''range'', PDict [(''z'', PDict [(''lte'', PInt 5)])])]]
   \<and> (\<exists>entries groups.
         collect (map range_entry (List.map_filter (\<lambda>cond. map_of cond ''range'')
           [[(''range'', PDict [(''a'', PDict [(''gt'', PInt 1)])])],
            [(''term'', PDict [(''b'', PInt 2)])],
            [(''range'', PDict [(''z'', PDict [(''lte'', PInt 5)])])],
            [(''range'', PDict [(''a'', PDict [(''lt'', PInt 9)])])],
            [(''term'', PDict [(''c'', PInt 3)])]]))
           = Inr entries
       \<and> [[(''term'', PDict [(''b'', PInt 2)])],
          [(''term'', PDict [(''c'', PInt 3)])],
          [(''range'', PDict [(''a'', PDict [(''gt'', PInt 1), (''lt'', PInt 9)])])],
          [(''range'', PDict [(''z'', PDict [(''lte'', PInt 5)])])]]
         = filter (\<lambda>c. \<not> has_range c)
             [[(''range'', PDict [(''a'', PDict [(''gt'', PInt 1)])])],
              [(''term'', PDict [(''b'', PInt 2)])],
              [(''range'', PDict [(''z'', PDict [(''lte'', PInt 5)])])],
              [(''range'', PDict [(''a'', PDict [(''lt'', PInt 9)])])],
              [(''term'', PDict [(''c'', PInt 3)])]]
           @ map (\<lambda>(field_name, ops). [(''range'', PDict [(field_name, PDict ops)])]) groups
       \<and> map fst groups = rev (remdups (rev (map fst entries)))
       \<and> (\<forall>field_name ops. map_of groups field_name = Some ops \<longrightarrow>
              ops \<noteq> [] \<and> distinct (map fst ops)
            \<and> map_of ops = map_of (rev (map snd (filter (\<lambda>e. fst e = field_name) entries)))))"
proof -
  have run: "merge_es_range_queries
     [[(''range'', PDict [(''a'', PDict [(''gt'', PInt 1)])])],
      [(''term'', PDict [(''b'', PInt 2)])],
      [(''range'', PDict [(''z'', PDict [(''lte'', PInt 5)])])],
      [(''range'', PDict [(''a'', PDict [(''lt'', PInt 9)])])],
      [(''term'', PDict [(''c'', PInt 3)])]]
   = Inr [[(''term'', PDict [(''b'', PInt 2)])],
          [(''term'', PDict [(''c'', PInt 3)])],
          [(''range'', PDict [(''a'', PDict [(''gt'', PInt 1), (''lt'', PInt 9)])])],
          [(''range'', PDict [(''z'', PDict [(''lte'', PInt 5)])])]]"
    by (simp add: merge_es_range_queries_def range_store_def has_range_def List.map_filter_def)
  from run merge_appends_range_clauses [OF run] show ?thesis by (rule conjI)
qed

section \<open>Weaviate\<close>

text \<open>
  Claim C4. The typed-value key of a value: an integer is typed \<^verbatim>\<open>valueInt\<close>, a float
  \<^verbatim>\<open>valueNumber\<close>, and None, a list and a dict raise ValueError, as the claim says.
  A boolean is typed \<^verbatim>\<open>valueInt\<close> and not \<^verbatim>\<open>valueBoolean\<close>: the test for
  \<^verbatim>\<open>int\<close> comes before the test for \<^verbatim>\<open>bool\<close>, and every \<^verbatim>\<open>bool\<close> is an
  \<^verbatim>\<open>int\<close>, so the branch for \<^verbatim>\<open>valueBoolean\<close> is never taken. The last line is the
  query that \<^verbatim>\<open>{"flag": True}\<close> is converted to.
\<close>

theorem weaviate_datatype_kinds:
  "weaviate_datatype cd (PInt i) = Inr (''valueInt'', PInt i)
   \<and> weaviate_datatype cd (PFloat x) = Inr (''valueNumber'', PFloat x)
   \<and> weaviate_datatype cd (PBool b) = Inr (''valueInt'', PBool b)
   \<and> weaviate_datatype cd PNone = Inl ValueError
   \<and> weaviate_datatype cd (PList vs) = Inl ValueError
   \<and> weaviate_datatype cd (PDict d) = Inl ValueError
   \<and> convert_to_weaviate cd (EqOperation ''flag'' (PBool True))
       = Inr [(''path'', PList [PStr ''flag'']), (''operator'', PStr ''Equal''),
              (''valueInt'', PBool True)]"
  by (simp add: get_weaviate_datatype_def weaviate_comparison_def)

text \<open>
  Claim C1. The filter \<^verbatim>\<open>{"$not": {"a": 1, "b": 2}}\<close> parses to the Not node over two
  comparisons. \<^verbatim>\<open>NotOperation.convert_to_weaviate\<close> inverts both children and joins
  them with \<^verbatim>\<open>And\<close>, where the inverted And node over the same children, and the Not
  node over that And node, are emitted with \<^verbatim>\<open>Or\<close>.
\<close>

theorem not_of_two_conditions:
  "parse LogicalFilterClause (PDict [(''$not'', PDict [(''a'', PInt 1), (''b'', PInt 2)])])
     = Inr (NotOperation [EqOperation ''a'' (PInt 1), EqOperation ''b'' (PInt 2)])
   \<and> convert_to_weaviate cd (NotOperation [EqOperation ''a'' (PInt 1), EqOperation ''b'' (PInt 2)])
     = Inr [(''operator'', PStr ''And''),
            (''operands'', PList
               [PDict [(''path'', PList [PStr ''a'']), (''operator'', PStr ''NotEqual''),
                       (''valueInt'', PInt 1)],
                PDict [(''path'', PList [PStr ''b'']), (''operator'', PStr ''NotEqual''),
                       (''valueInt'', PInt 2)]])]
   \<and> convert_to_weaviate cd
         (invert (AndOperation [EqOperation ''a'' (PInt 1), EqOperation ''b'' (PInt 2)]))
     = Inr [(''operator'', PStr ''Or''),
            (''operands'', PList
               [PDict [(''path'', PList [PStr ''a'']), (''operator'', PStr ''NotEqual''),
                       (''valueInt'', PInt 1)],
                PDict [(''path'', PList [PStr ''b'']), (''operator'', PStr ''NotEqual''),
                       (''valueInt'', PInt 2)]])]
   \<and> convert_to_weaviate cd
         (NotOperation [AndOperation [EqOperation ''a'' (PInt 1), EqOperation ''b'' (PInt 2)]])
     = Inr [(''operator'', PStr ''Or''),
            (''operands'', PList
               [PDict [(''path'', PList [PStr ''a'']), (''operator'', PStr ''NotEqual''),
                       (''valueInt'', PInt 1)],
                PDict [(''path'', PList [PStr ''b'']), (''operator'', PStr ''NotEqual''),
                       (''valueInt'', PInt 2)]])]"
  by (simp add: parse_def get_weaviate_datatype_def weaviate_comparison_def)

text \<open>
  Claim C7 says that no And or Or node of an emitted query has exactly one operand.
  \<^verbatim>\<open>{"$and": {"a": 1}}\<close> parses to an And node over one comparison, and its query is
  an \<^verbatim>\<open>And\<close> over one operand.
\<close>

theorem singleton_and_counterexample:
  "parse LogicalFilterClause (PDict [(''$and'', PDict [(''a'', PInt 1)])])
     = Inr (AndOperation [EqOperation ''a'' (PInt 1)])
   \<and> convert_to_weaviate Map.empty (AndOperation [EqOperation ''a'' (PInt 1)])
     = Inr [(''operator'', PStr ''And''), (''operands'', PList
             [PDict [(''path'', PList [PStr ''a'']), (''operator'', PStr ''Equal''),
                     (''valueInt'', PInt 1)]])]"
  by (simp add: parse_def get_weaviate_datatype_def weaviate_comparison_def)

text \<open>
  Claim C7, amended. Only a Not node over exactly one child is replaced by what its
  child gives: the query of the inverted child. An And or Or node over one child is
  emitted as an \<^verbatim>\<open>And\<close> or \<^verbatim>\<open>Or\<close> over one operand, and an In or NotIn comparison
  over a one-element list as an \<^verbatim>\<open>Or\<close> or \<^verbatim>\<open>And\<close> over one operand.
\<close>

theorem single_child_emission:
  "convert_to_weaviate cd (NotOperation [c]) = convert_to_weaviate cd (invert c)
   \<and> (convert_to_weaviate cd c = Inr d \<longrightarrow>
          convert_to_weaviate cd (AndOperation [c])
            = Inr [(''operator'', PStr ''And''), (''operands'', PList [PDict d])]
        \<and> convert_to_weaviate cd (OrOperation [c])
            = Inr [(''operator'', PStr ''Or''), (''operands'', PList [PDict d])])
   \<and> (get_weaviate_datatype cd (PList [v]) v = Inr typed \<longrightarrow>
          convert_to_weaviate cd (InOperation f (PList [v]))
            = Inr [(''operator'', PStr ''Or''),
                   (''operands'', PList [PDict (weaviate_comparison f ''Equal'' typed)])]
        \<and> convert_to_weaviate cd (NinOperation f (PList [v]))
            = Inr [(''operator'', PStr ''And''),
                   (''operands'', PList [PDict (weaviate_comparison f ''NotEqual'' typed)])])"
  by (cases "convert_to_weaviate cd (invert c)") simp_all

theorem single_child_emission_witness:
  "convert_to_weaviate Map.empty (NotOperation [EqOperation ''type'' (PStr ''article'')])
     = Inr [(''path'', PList [PStr ''type'']), (''operator'', PStr ''NotEqual''),
            (''valueString'', PStr ''article'')]
   \<and> convert_to_weaviate Map.empty (AndOperation [EqOperation ''type'' (PStr ''article'')])
     = Inr [(''operator'', PStr ''And''), (''operands'', PList
             [PDict [(''path'', PList [PStr ''type'']), (''operator'', PStr ''Equal''),
                     (''valueString'', PStr ''article'')]])]
   \<and> convert_to_weaviate Map.empty (OrOperation [EqOperation ''type'' (PStr ''article'')])
     = Inr [(''operator'', PStr ''Or''), (''operands'', PList
             [PDict [(''path'', PList [PStr ''type'']), (''operator'', PStr ''Equal''),
                     (''valueString'', PStr ''article'')]])]
   \<and> convert_to_weaviate Map.empty (InOperation ''type'' (PList [PStr ''article'']))
     = Inr [(''operator'', PStr ''Or''), (''operands'', PList
             [PDict [(''path'', PList [PStr ''type'']), (''operator'', PStr ''Equal''),
                     (''valueString'', PStr ''article'')]])]"
  using single_child_emission [of Map.empty "EqOperation ''type'' (PStr ''article'')"
      "[(''path'', PList [PStr ''type'']), (''operator'', PStr ''Equal''),
        (''valueString'', PStr ''article'')]"
      "PStr ''article''" "(''valueString'', PStr ''article'')" "''type''"]
  by (simp add: get_weaviate_datatype_def weaviate_comparison_def)

end
